theory Spec2Isabelle
  imports Main
begin

section \<open>The environment of the script\<close>

text \<open>
  The script \<^verbatim>\<open>multiprocesser.py\<close> has one function, \<^verbatim>\<open>fun\<close>, and a short main
  block. Everything else it touches belongs to the Python runtime and the
  operating system; those parts are parameters of the model:

  \<^item> \<open>cpu_count\<close>: what \<^verbatim>\<open>os.cpu_count()\<close> reports; \<^verbatim>\<open>Pool()\<close> without an argument
    starts that many workers, and one worker when the count is unknown or zero;
  \<^item> \<open>worker_pid k\<close>: the process identifier the operating system gives to the
    \<open>k\<close>-th worker the pool starts;
  \<^item> \<open>executor i\<close>: the scheduling decision, which worker takes the task at position
    \<open>i\<close> of the iterable (read modulo the pool size, so every function is a schedule
    and every schedule is such a function);
  \<^item> \<open>set_slot\<close>: the iteration order of a Python set, which the language leaves
    open: the elements come out sorted by this key, ties in order of first insertion.
    Every order of a finite set is the order of some key.

  The model is the run in which the pool starts and no worker dies; the script has no
  handler for anything else.
\<close>

record process =
  getpid :: int

record env =
  cpu_count :: "nat option"
  worker_pid :: "nat \<Rightarrow> int"
  executor :: "nat \<Rightarrow> nat"
  set_slot :: "int \<Rightarrow> int"

text \<open>
  What can be observed of a run: the characters written to standard output, and the
  order of the events of the driver and its pool.
\<close>

datatype event =
    Printed string
  | Spawned int
  | Submitted nat
  | Executed nat int
  | Collected nat int
  | Terminated int

record state =
  stdout :: string
  trace :: "event list"

definition init_state :: state where
  "init_state = \<lparr>stdout = [], trace = []\<rparr>"

section \<open>The Python built-ins the script calls\<close>

definition newline :: char where
  "newline = CHR 0x0A"

text \<open>\<^verbatim>\<open>sep.join(xs)\<close>\<close>

fun join :: "string \<Rightarrow> string list \<Rightarrow> string" where
  "join sep [] = []"
| "join sep [x] = x"
| "join sep (x # y # ys) = x @ sep @ join sep (y # ys)"

text \<open>
  \<^verbatim>\<open>print(a, b, ...)\<close> writes its arguments separated by one space and ends the line.
\<close>

definition print_py :: "string list \<Rightarrow> state \<Rightarrow> state" where
  "print_py args s =
     s\<lparr>stdout := stdout s @ join '' '' args @ [newline],
       trace := trace s @ [Printed (join '' '' args)]\<rparr>"

text \<open>\<^verbatim>\<open>str\<close> on an integer: decimal digits, a minus sign for a negative number.\<close>

definition digit_char :: "nat \<Rightarrow> char" where
  "digit_char d = ''0123456789'' ! d"

fun str_nat :: "nat \<Rightarrow> string" where
  "str_nat n = (if n < 10 then [digit_char n] else str_nat (n div 10) @ [digit_char (n mod 10)])"

declare str_nat.simps [simp del]

definition str_py :: "int \<Rightarrow> string" where
  "str_py i = (if i < 0 then CHR ''-'' # str_nat (nat (- i)) else str_nat (nat i))"

text \<open>\<^verbatim>\<open>range(n)\<close> and \<^verbatim>\<open>set(xs)\<close>, the latter as the list its iteration yields.\<close>

definition range_py :: "nat \<Rightarrow> int list" where
  "range_py n = map int [0..<n]"

definition set_py :: "env \<Rightarrow> int list \<Rightarrow> int list" where
  "set_py env xs = sort_key (set_slot env) (remdups xs)"

section \<open>The process pool\<close>

text \<open>\<^verbatim>\<open>multiprocessing.Pool()\<close>: the default size is \<^verbatim>\<open>os.cpu_count() or 1\<close>.\<close>

definition pool_size :: "env \<Rightarrow> nat" where
  "pool_size env = (case cpu_count env of None \<Rightarrow> 1 | Some c \<Rightarrow> if c = 0 then 1 else c)"

text \<open>Entering the \<^verbatim>\<open>with\<close> block starts the workers.\<close>

definition Pool_enter :: "env \<Rightarrow> state \<Rightarrow> process list \<times> state" where
  "Pool_enter env s =
     (let pool = map (\<lambda>k. \<lparr>getpid = worker_pid env k\<rparr>) [0..<pool_size env]
      in (pool, s\<lparr>trace := trace s @ map (\<lambda>w. Spawned (getpid w)) pool\<rparr>))"

text \<open>
  \<^verbatim>\<open>pool.map(f, xs)\<close> hands every position of \<open>xs\<close> to a worker, waits for all of them and
  returns the results in the order of \<open>xs\<close>. The function runs inside the worker, so it
  receives the worker's process next to its argument.
\<close>

definition worker_of :: "env \<Rightarrow> process list \<Rightarrow> nat \<Rightarrow> process" where
  "worker_of env pool i = pool ! (executor env i mod length pool)"

definition Pool_map ::
  "env \<Rightarrow> process list \<Rightarrow> (process \<Rightarrow> int \<Rightarrow> int) \<Rightarrow> int list \<Rightarrow> state \<Rightarrow> int list \<times> state" where
  "Pool_map env pool f xs s =
     (let n = length xs;
          result = (\<lambda>i. f (worker_of env pool i) (xs ! i))
      in (map result [0..<n],
          s\<lparr>trace := trace s
                @ map Submitted [0..<n]
                @ map (\<lambda>i. Executed i (getpid (worker_of env pool i))) [0..<n]
                @ map (\<lambda>i. Collected i (result i)) [0..<n]\<rparr>))"

text \<open>Leaving the \<^verbatim>\<open>with\<close> block terminates the workers.\<close>

definition Pool_exit :: "process list \<Rightarrow> state \<Rightarrow> state" where
  "Pool_exit pool s = s\<lparr>trace := trace s @ map (\<lambda>w. Terminated (getpid w)) pool\<rparr>"

section \<open>The script\<close>

text \<open>\<^verbatim>\<open>def fun(x): return os.getpid()\<close>, run in the process \<open>self\<close>.\<close>

definition fun_py :: "process \<Rightarrow> int \<Rightarrow> int" where
  "fun_py self x = getpid self"

text \<open>
  The main block. A run records the values the block computes on its way: the list
  \<open>processes\<close> that \<^verbatim>\<open>pool.map\<close> returns, the iteration of \<^verbatim>\<open>set(processes)\<close>, the
  joined string handed to the last \<^verbatim>\<open>print\<close>, and the final state. \<open>main_on\<close> takes
  the iterable as a parameter; the script runs it on \<^verbatim>\<open>range(1000000)\<close>.
\<close>

definition start_line :: string where
  "start_line = ''PYTHON: starting multiprocessing pool''"

definition end_line :: string where
  "end_line = ''PYTHON: ended multiprocessing pool''"

definition ids_label :: string where
  "ids_label = ''PYTHON: process IDs: ''"

record run =
  processes :: "int list"
  distinct_ids :: "int list"
  joined :: string
  final :: state

definition main_on :: "env \<Rightarrow> int list \<Rightarrow> run" where
  "main_on env tasks =
     (let s1 = print_py [start_line] init_state;
          (pool, s2) = Pool_enter env s1;
          (procs, s3) = Pool_map env pool fun_py tasks s2;
          s4 = Pool_exit pool s3;
          s5 = print_py [end_line] s4;
          ids = set_py env procs;
          joined_ids = join '', '' (map str_py ids);
          s6 = print_py [ids_label, joined_ids] s5
      in \<lparr>processes = procs, distinct_ids = ids, joined = joined_ids, final = s6\<rparr>)"

definition main :: "env \<Rightarrow> run" where
  "main env = main_on env (range_py 1000000)"

text \<open>
  A host with four logical processors whose workers get the identifiers 1001 to 1004,
  the pool's default chunks of 62500 tasks dealt round robin, and a set that iterates in
  increasing order, as CPython's does for small integers that fill no slot twice.
\<close>

definition env4 :: env where
  "env4 = \<lparr>cpu_count = Some 4,
           worker_pid = (\<lambda>k. 1001 + int k),
           executor = (\<lambda>i. i div 62500),
           set_slot = (\<lambda>p. p)\<rparr>"

section \<open>Reading a run\<close>

text \<open>
  The process identifiers of the workers the pool starts, and the identifier of the
  worker that takes the task at position \<open>i\<close>.
\<close>

definition worker_pids :: "env \<Rightarrow> int list" where
  "worker_pids env = map (worker_pid env) [0..<pool_size env]"

definition pid_of_task :: "env \<Rightarrow> nat \<Rightarrow> int" where
  "pid_of_task env i = worker_pid env (executor env i mod pool_size env)"

text \<open>The events of a trace before and after the first occurrence of an event.\<close>

definition events_before :: "event \<Rightarrow> event list \<Rightarrow> event list" where
  "events_before e tr = takeWhile (\<lambda>x. x \<noteq> e) tr"

definition events_after :: "event \<Rightarrow> event list \<Rightarrow> event list" where
  "events_after e tr = drop 1 (dropWhile (\<lambda>x. x \<noteq> e) tr)"

fun is_task_event :: "event \<Rightarrow> bool" where
  "is_task_event (Submitted i) = True"
| "is_task_event (Executed i w) = True"
| "is_task_event (Collected i v) = True"
| "is_task_event (Printed l) = False"
| "is_task_event (Spawned p) = False"
| "is_task_event (Terminated p) = False"

text \<open>
  The lines of an output stream: the text before each line end, and the unfinished rest
  when there is one.
\<close>

fun split_lines :: "string \<Rightarrow> string \<Rightarrow> string list" where
  "split_lines cur [] = (if cur = [] then [] else [cur])"
| "split_lines cur (c # cs) =
     (if c = newline then cur # split_lines [] cs else split_lines (cur @ [c]) cs)"

definition output_lines :: "string \<Rightarrow> string list" where
  "output_lines out = split_lines [] out"

section \<open>Facts about the built-ins and the main block\<close>

lemma digit_char_in_digits: "d < 10 \<Longrightarrow> digit_char d \<in> set ''0123456789''"
  unfolding digit_char_def by (rule nth_mem) simp

lemma str_nat_digits: "set (str_nat n) \<subseteq> set ''0123456789''"
proof (induction n rule: str_nat.induct)
  case (1 n)
  show ?case
  proof (cases "n < 10")
    case True
    then have "str_nat n = [digit_char n]"
      by (subst str_nat.simps) simp
    then show ?thesis
      using digit_char_in_digits [OF True] by simp
  next
    case False
    have d: "digit_char (n mod 10) \<in> set ''0123456789''"
      by (rule digit_char_in_digits) simp
    have "str_nat n = str_nat (n div 10) @ [digit_char (n mod 10)]"
      using False by (subst str_nat.simps) simp
    then show ?thesis
      using 1 [OF False] d by simp
  qed
qed

lemma newline_not_digit: "newline \<notin> set ''-0123456789''"
  by (simp add: newline_def)

lemma newline_not_in_str_nat: "newline \<notin> set (str_nat n)"
proof
  assume "newline \<in> set (str_nat n)"
  then have "newline \<in> set ''0123456789''"
    using str_nat_digits [of n] by (rule subsetD [rotated])
  then show False
    by (simp add: newline_def)
qed

lemma newline_not_in_str_py: "newline \<notin> set (str_py i)"
proof (cases "i < 0")
  case True
  then have "str_py i = CHR ''-'' # str_nat (nat (- i))"
    by (simp add: str_py_def)
  then show ?thesis
    using newline_not_in_str_nat [of "nat (- i)"] by (simp add: newline_def)
next
  case False
  then have "str_py i = str_nat (nat i)"
    by (simp add: str_py_def)
  then show ?thesis
    using newline_not_in_str_nat [of "nat i"] by simp
qed

lemma join_avoids:
  "c \<notin> set sep \<Longrightarrow> (\<And>x. x \<in> set xs \<Longrightarrow> c \<notin> set x) \<Longrightarrow> c \<notin> set (join sep xs)"
  by (induction sep xs rule: join.induct) simp_all

lemma split_lines_line:
  "newline \<notin> set l \<Longrightarrow> split_lines cur (l @ newline # rest) = (cur @ l) # split_lines [] rest"
proof (induction l arbitrary: cur)
  case Nil
  show ?case by simp
next
  case (Cons a l)
  from Cons.prems have a: "a \<noteq> newline" and l: "newline \<notin> set l"
    by auto
  show ?case
    using a Cons.IH [OF l, of "cur @ [a]"] by simp
qed

lemma set_py_distinct: "distinct (set_py env xs)"
  by (simp add: set_py_def)

lemma set_py_set: "set (set_py env xs) = set xs"
  by (simp add: set_py_def)

lemma length_set_py: "length (set_py env xs) = card (set xs)"
  by (simp add: set_py_def length_remdups_card_conv)

lemma pool_size_pos: "0 < pool_size env"
  by (simp add: pool_size_def split: option.split)

lemma getpid_worker_of:
  "getpid (worker_of env (map (\<lambda>k. \<lparr>getpid = worker_pid env k\<rparr>) [0..<pool_size env]) i)
     = pid_of_task env i"
  using pool_size_pos [of env] by (simp add: worker_of_def pid_of_task_def)

lemma processes_main_on:
  "processes (main_on env tasks) = map (pid_of_task env) [0..<length tasks]"
  by (simp add: main_on_def Pool_enter_def Pool_map_def Let_def fun_py_def getpid_worker_of)

lemma distinct_ids_main_on:
  "distinct_ids (main_on env tasks) = set_py env (processes (main_on env tasks))"
  by (simp add: main_on_def Pool_enter_def Pool_map_def Let_def)

lemma joined_main_on:
  "joined (main_on env tasks) = join '', '' (map str_py (distinct_ids (main_on env tasks)))"
  by (simp add: main_on_def Pool_enter_def Pool_map_def Let_def)

lemma trace_main_on:
  "trace (final (main_on env tasks)) =
     [Printed start_line]
     @ map Spawned (worker_pids env)
     @ map Submitted [0..<length tasks]
     @ map (\<lambda>i. Executed i (pid_of_task env i)) [0..<length tasks]
     @ map (\<lambda>i. Collected i (pid_of_task env i)) [0..<length tasks]
     @ map Terminated (worker_pids env)
     @ [Printed end_line, Printed (ids_label @ '' '' @ joined (main_on env tasks))]"
  by (simp add: main_on_def Pool_enter_def Pool_map_def Pool_exit_def print_py_def Let_def
      fun_py_def getpid_worker_of init_state_def worker_pids_def comp_def)

lemma stdout_main_on:
  "stdout (final (main_on env tasks)) =
     start_line @ [newline] @ end_line @ [newline]
     @ ids_label @ '' '' @ joined (main_on env tasks) @ [newline]"
  by (simp add: main_on_def Pool_enter_def Pool_map_def Pool_exit_def print_py_def Let_def
      init_state_def)


lemma length_range_py: "length (range_py n) = n"
  by (simp add: range_py_def)

lemma pid_of_task_in_pool: "pid_of_task env i \<in> set (worker_pids env)"
  using pool_size_pos [of env] by (simp add: pid_of_task_def worker_pids_def)

lemma length_worker_pids: "length (worker_pids env) = pool_size env"
  by (simp add: worker_pids_def)

lemma newline_not_in_joined: "newline \<notin> set (joined (main_on env tasks))"
  unfolding joined_main_on
proof (rule join_avoids)
  show "newline \<notin> set '', ''"
    by (simp add: newline_def)
next
  fix x assume "x \<in> set (map str_py (distinct_ids (main_on env tasks)))"
  then obtain p where "x = str_py p"
    by auto
  then show "newline \<notin> set x"
    by (simp add: newline_not_in_str_py)
qed

lemma events_before_split: "e \<notin> set xs \<Longrightarrow> events_before e (xs @ e # ys) = xs"
  by (induction xs) (auto simp: events_before_def)

lemma events_after_split: "e \<notin> set xs \<Longrightarrow> events_after e (xs @ e # ys) = ys"
  by (induction xs) (auto simp: events_after_def)

section \<open>The task function\<close>

text \<open>
  Claim C2. For every integer index, the task function returns the process identifier of
  the process that executes it, and the index plays no part in the result: any two
  indices give the same value in the same process.
\<close>

theorem fun_py_returns_own_pid:
  "fun_py self x = getpid self \<and> fun_py self x = fun_py self y"
  by (simp add: fun_py_def)

section \<open>The boundary of no tasks\<close>

text \<open>
  Claim C6. With a task count of 0 the result collection is empty, the set of distinct
  identifiers has no element, and the joined string handed to the last print is empty.
\<close>

theorem no_tasks_empty_output:
  "processes (main_on env (range_py 0)) = []
   \<and> distinct_ids (main_on env (range_py 0)) = []
   \<and> card (set (distinct_ids (main_on env (range_py 0)))) = 0
   \<and> joined (main_on env (range_py 0)) = []"
  by (simp add: joined_main_on distinct_ids_main_on processes_main_on length_range_py set_py_def)

section \<open>Independence of the task values\<close>

lemma main_on_length_only: "length xs = length ys \<Longrightarrow> main_on env xs = main_on env ys"
  by (simp add: main_on_def Pool_enter_def Pool_map_def Let_def fun_py_def)

text \<open>
  Claim C9. The task function returns the same value for any two arguments evaluated in
  the same process (it is a total function with no failing branch), so a run depends on
  the iterable only through its length: two iterables of the same length give the same
  run, and the same standard output.
\<close>

theorem output_depends_on_length_only:
  "fun_py self x = fun_py self y
   \<and> (length xs = length ys \<longrightarrow>
        main_on env xs = main_on env ys
        \<and> stdout (final (main_on env xs)) = stdout (final (main_on env ys)))"
proof (intro conjI impI)
  show "fun_py self x = fun_py self y"
    by (simp add: fun_py_def)
next
  assume "length xs = length ys"
  then show "main_on env xs = main_on env ys"
    by (rule main_on_length_only)
next
  assume "length xs = length ys"
  then have "main_on env xs = main_on env ys"
    by (rule main_on_length_only)
  then show "stdout (final (main_on env xs)) = stdout (final (main_on env ys))"
    by (rule arg_cong)
qed

theorem output_depends_on_length_only_witness:
  "length (range_py 1000000) = length (map (\<lambda>x. x + 5) (range_py 1000000))
   \<and> stdout (final (main env4))
       = stdout (final (main_on env4 (map (\<lambda>x. x + 5) (range_py 1000000))))"
proof -
  have len: "length (range_py 1000000) = length (map (\<lambda>x. x + 5) (range_py 1000000))"
    by (simp only: length_map)
  from output_depends_on_length_only
         [of _ _ _ "range_py 1000000" "map (\<lambda>x. x + 5) (range_py 1000000)" env4] len
  have "stdout (final (main_on env4 (range_py 1000000)))
        = stdout (final (main_on env4 (map (\<lambda>x. x + 5) (range_py 1000000))))"
    by blast
  with len show ?thesis
    unfolding main_def by (rule conjI)
qed


section \<open>The distinct identifiers\<close>

lemma set_processes_main_on:
  "set (processes (main_on env tasks)) = pid_of_task env ` {0..<length tasks}"
  by (simp add: processes_main_on)

lemma processes_in_pool:
  "set (processes (main_on env tasks)) \<subseteq> set (worker_pids env)"
  by (auto simp: set_processes_main_on pid_of_task_in_pool)

lemma length_distinct_ids:
  "length (distinct_ids (main_on env tasks)) = card (set (processes (main_on env tasks)))"
  by (simp add: distinct_ids_main_on length_set_py)

text \<open>
  Claim C5. For every run with at least one task, the distinct identifiers derived from
  the result collection are at least one and at most as many as the workers the pool
  started.
\<close>

theorem distinct_ids_count_bounds:
  assumes "tasks \<noteq> []"
  shows "distinct (distinct_ids (main_on env tasks))
     \<and> set (distinct_ids (main_on env tasks)) = set (processes (main_on env tasks))
     \<and> 1 \<le> length (distinct_ids (main_on env tasks))
     \<and> length (distinct_ids (main_on env tasks)) \<le> pool_size env"
proof -
  let ?P = "set (processes (main_on env tasks))"
  have "processes (main_on env tasks) \<noteq> []"
    using assms by (simp add: processes_main_on)
  then have "?P \<noteq> {}"
    by simp
  then have "0 < card ?P"
    by (simp add: card_gt_0_iff)
  moreover have "card ?P \<le> card (set (worker_pids env))"
    by (rule card_mono) (simp_all add: processes_in_pool)
  moreover have "card (set (worker_pids env)) \<le> pool_size env"
    using card_length [of "worker_pids env"] by (simp add: length_worker_pids)
  ultimately show ?thesis
    by (simp add: length_distinct_ids) (simp add: distinct_ids_main_on set_py_distinct set_py_set)
qed

theorem distinct_ids_count_bounds_witness:
  "range_py 1000000 \<noteq> []
   \<and> 1 \<le> length (distinct_ids (main env4))
   \<and> length (distinct_ids (main env4)) \<le> 4"
proof -
  have ne: "range_py 1000000 \<noteq> []"
    using length_range_py [of 1000000] by auto
  have "pool_size env4 = 4"
    by (simp add: pool_size_def env4_def)
  then show ?thesis
    using ne distinct_ids_count_bounds [OF ne, of env4] by (simp add: main_def)
qed

section \<open>The result collection\<close>

lemma count_map_Executed:
  "count_list (map (\<lambda>i. Executed i (g i)) [0..<n]) (Executed i w)
     = (if i < n \<and> w = g i then 1 else 0)"
  by (induction n) auto

lemma count_map_Collected:
  "count_list (map (\<lambda>i. Collected i (g i)) [0..<n]) (Collected i v)
     = (if i < n \<and> v = g i then 1 else 0)"
  by (induction n) auto

lemma count_Executed_trace:
  "count_list (trace (final (main_on env tasks))) (Executed i w)
     = (if i < length tasks \<and> w = pid_of_task env i then 1 else 0)"
proof -
  have "Executed i w \<notin> set (map Spawned (worker_pids env))"
       "Executed i w \<notin> set (map Submitted [0..<length tasks])"
       "Executed i w \<notin> set (map (\<lambda>i. Collected i (pid_of_task env i)) [0..<length tasks])"
       "Executed i w \<notin> set (map Terminated (worker_pids env))"
    by auto
  then show ?thesis
    by (simp add: trace_main_on count_map_Executed del: set_map)
qed

lemma count_Collected_trace:
  "count_list (trace (final (main_on env tasks))) (Collected i v)
     = (if i < length tasks \<and> v = pid_of_task env i then 1 else 0)"
proof -
  have "Collected i v \<notin> set (map Spawned (worker_pids env))"
       "Collected i v \<notin> set (map Submitted [0..<length tasks])"
       "Collected i v \<notin> set (map (\<lambda>i. Executed i (pid_of_task env i)) [0..<length tasks])"
       "Collected i v \<notin> set (map Terminated (worker_pids env))"
    by auto
  then show ?thesis
    by (simp add: trace_main_on count_map_Collected del: set_map)
qed

lemma nth_processes:
  "i < length tasks \<Longrightarrow> processes (main_on env tasks) ! i = pid_of_task env i"
  by (simp add: processes_main_on)

lemma main_on_results:
  "length (processes (main_on env tasks)) = length tasks
   \<and> (\<forall>i<length tasks.
         processes (main_on env tasks) ! i = pid_of_task env i
         \<and> count_list (trace (final (main_on env tasks)))
              (Executed i (processes (main_on env tasks) ! i)) = 1
         \<and> count_list (trace (final (main_on env tasks)))
              (Collected i (processes (main_on env tasks) ! i)) = 1)
   \<and> (\<forall>i w. Executed i w \<in> set (trace (final (main_on env tasks)))
         \<longrightarrow> i < length tasks \<and> w = processes (main_on env tasks) ! i)
   \<and> (\<forall>i v. Collected i v \<in> set (trace (final (main_on env tasks)))
         \<longrightarrow> i < length tasks \<and> v = processes (main_on env tasks) ! i)"
proof (intro conjI allI impI)
  show "length (processes (main_on env tasks)) = length tasks"
    by (simp add: processes_main_on)
next
  fix i assume "i < length tasks"
  then show "processes (main_on env tasks) ! i = pid_of_task env i"
    by (rule nth_processes)
next
  fix i assume "i < length tasks"
  then show "count_list (trace (final (main_on env tasks)))
               (Executed i (processes (main_on env tasks) ! i)) = 1"
    by (simp add: count_Executed_trace nth_processes)
next
  fix i assume "i < length tasks"
  then show "count_list (trace (final (main_on env tasks)))
               (Collected i (processes (main_on env tasks) ! i)) = 1"
    by (simp add: count_Collected_trace nth_processes)
next
  fix i w assume "Executed i w \<in> set (trace (final (main_on env tasks)))"
  then have "count_list (trace (final (main_on env tasks))) (Executed i w) \<noteq> 0"
    by (simp add: count_list_0_iff)
  then have *: "i < length tasks \<and> w = pid_of_task env i"
    by (simp add: count_Executed_trace split: if_splits)
  then show "i < length tasks" by simp
  from * show "w = processes (main_on env tasks) ! i"
    by (simp add: nth_processes)
next
  fix i v assume "Collected i v \<in> set (trace (final (main_on env tasks)))"
  then have "count_list (trace (final (main_on env tasks))) (Collected i v) \<noteq> 0"
    by (simp add: count_list_0_iff)
  then have *: "i < length tasks \<and> v = pid_of_task env i"
    by (simp add: count_Collected_trace split: if_splits)
  then show "i < length tasks" by simp
  from * show "v = processes (main_on env tasks) ! i"
    by (simp add: nth_processes)
qed

text \<open>
  Claim C1. The map over the pool returns one integer for each of the 1,000,000
  submitted task indices, in submission order: the element at position \<open>i\<close> is the
  process identifier of the worker that executed task \<open>i\<close>. Each task is executed once
  and its result collected once, and no execution or result belongs to an index that
  was not submitted: nothing is lost and nothing is duplicated.
\<close>

theorem processes_one_result_per_task:
  "length (processes (main env)) = 1000000
   \<and> (\<forall>i<1000000.
         processes (main env) ! i = pid_of_task env i
         \<and> count_list (trace (final (main env))) (Executed i (processes (main env) ! i)) = 1
         \<and> count_list (trace (final (main env))) (Collected i (processes (main env) ! i)) = 1)
   \<and> (\<forall>i w. Executed i w \<in> set (trace (final (main env)))
         \<longrightarrow> i < 1000000 \<and> w = processes (main env) ! i)
   \<and> (\<forall>i v. Collected i v \<in> set (trace (final (main env)))
         \<longrightarrow> i < 1000000 \<and> v = processes (main env) ! i)"
  unfolding main_def
  using main_on_results [of env "range_py 1000000", unfolded length_range_py] .

theorem processes_one_result_per_task_witness:
  "(3::nat) < 1000000
   \<and> processes (main env4) ! 3 = 1001
   \<and> count_list (trace (final (main env4))) (Collected 3 1001) = 1"
proof -
  have lt: "(3::nat) < 1000000"
    by simp
  have pid: "pid_of_task env4 3 = 1001"
    by (simp add: pid_of_task_def env4_def pool_size_def)
  from processes_one_result_per_task [of env4] lt
  have "processes (main env4) ! 3 = pid_of_task env4 3
        \<and> count_list (trace (final (main env4))) (Collected 3 (processes (main env4) ! 3)) = 1"
    by blast
  with lt pid show ?thesis
    by auto
qed

section \<open>The order of the status lines and the pool's life\<close>

lemma start_not_end: "start_line \<noteq> end_line"
  by (simp add: start_line_def end_line_def)

lemma before_start:
  "events_before (Printed start_line) (trace (final (main_on env tasks))) = []"
  using events_before_split [of "Printed start_line" "[]"]
  by (simp add: trace_main_on)

lemma after_start:
  "events_after (Printed start_line) (trace (final (main_on env tasks))) =
     map Spawned (worker_pids env)
     @ map Submitted [0..<length tasks]
     @ map (\<lambda>i. Executed i (pid_of_task env i)) [0..<length tasks]
     @ map (\<lambda>i. Collected i (pid_of_task env i)) [0..<length tasks]
     @ map Terminated (worker_pids env)
     @ [Printed end_line, Printed (ids_label @ '' '' @ joined (main_on env tasks))]"
  using events_after_split [of "Printed start_line" "[]"]
  by (simp add: trace_main_on)

lemma trace_around_end:
  "trace (final (main_on env tasks)) =
     ([Printed start_line]
      @ map Spawned (worker_pids env)
      @ map Submitted [0..<length tasks]
      @ map (\<lambda>i. Executed i (pid_of_task env i)) [0..<length tasks]
      @ map (\<lambda>i. Collected i (pid_of_task env i)) [0..<length tasks]
      @ map Terminated (worker_pids env))
     @ Printed end_line # [Printed (ids_label @ '' '' @ joined (main_on env tasks))]"
  by (simp add: trace_main_on)

lemma end_not_earlier:
  "Printed end_line \<notin> set
     ([Printed start_line]
      @ map Spawned (worker_pids env)
      @ map Submitted [0..<length tasks]
      @ map (\<lambda>i. Executed i (pid_of_task env i)) [0..<length tasks]
      @ map (\<lambda>i. Collected i (pid_of_task env i)) [0..<length tasks]
      @ map Terminated (worker_pids env))"
  using start_not_end by auto

lemma before_end:
  "events_before (Printed end_line) (trace (final (main_on env tasks))) =
     [Printed start_line]
     @ map Spawned (worker_pids env)
     @ map Submitted [0..<length tasks]
     @ map (\<lambda>i. Executed i (pid_of_task env i)) [0..<length tasks]
     @ map (\<lambda>i. Collected i (pid_of_task env i)) [0..<length tasks]
     @ map Terminated (worker_pids env)"
  by (subst trace_around_end) (rule events_before_split [OF end_not_earlier])

lemma after_end:
  "events_after (Printed end_line) (trace (final (main_on env tasks))) =
     [Printed (ids_label @ '' '' @ joined (main_on env tasks))]"
  by (subst trace_around_end) (rule events_after_split [OF end_not_earlier])

lemma main_on_status_lines:
  "(\<forall>e\<in>set (events_before (Printed start_line) (trace (final (main_on env tasks)))).
       \<not> is_task_event e)
   \<and> Printed start_line \<in> set (trace (final (main_on env tasks)))
   \<and> Printed end_line \<in> set (trace (final (main_on env tasks)))
   \<and> (\<forall>i<length tasks.
         Submitted i \<in> set (events_after (Printed start_line) (trace (final (main_on env tasks))))
         \<and> Executed i (pid_of_task env i)
             \<in> set (events_before (Printed end_line) (trace (final (main_on env tasks))))
         \<and> Collected i (processes (main_on env tasks) ! i)
             \<in> set (events_before (Printed end_line) (trace (final (main_on env tasks)))))
   \<and> (\<forall>e\<in>set (events_after (Printed end_line) (trace (final (main_on env tasks)))).
         \<not> is_task_event e)"
proof (intro conjI allI impI ballI)
  fix e
  assume "e \<in> set (events_before (Printed start_line) (trace (final (main_on env tasks))))"
  then show "\<not> is_task_event e"
    by (simp add: before_start)
next
  show "Printed start_line \<in> set (trace (final (main_on env tasks)))"
    by (simp add: trace_main_on)
next
  show "Printed end_line \<in> set (trace (final (main_on env tasks)))"
    by (simp add: trace_main_on)
next
  fix i assume "i < length tasks"
  then show "Submitted i
      \<in> set (events_after (Printed start_line) (trace (final (main_on env tasks))))"
    by (simp add: after_start)
next
  fix i assume "i < length tasks"
  then show "Executed i (pid_of_task env i)
      \<in> set (events_before (Printed end_line) (trace (final (main_on env tasks))))"
    by (simp add: before_end)
next
  fix i assume "i < length tasks"
  then show "Collected i (processes (main_on env tasks) ! i)
      \<in> set (events_before (Printed end_line) (trace (final (main_on env tasks))))"
    by (simp add: before_end nth_processes)
next
  fix e
  assume "e \<in> set (events_after (Printed end_line) (trace (final (main_on env tasks))))"
  then show "\<not> is_task_event e"
    by (simp add: after_end)
qed

text \<open>
  Claim C8. The first status line is printed before any task is submitted to the pool:
  no task event precedes it and every submission follows it. The second status line is
  printed only after every task has been executed and its result collected: all of
  these events precede it and no task event follows it.
\<close>

theorem status_lines_around_the_tasks:
  "(\<forall>e\<in>set (events_before (Printed start_line) (trace (final (main env)))).
       \<not> is_task_event e)
   \<and> Printed start_line \<in> set (trace (final (main env)))
   \<and> Printed end_line \<in> set (trace (final (main env)))
   \<and> (\<forall>i<1000000.
         Submitted i \<in> set (events_after (Printed start_line) (trace (final (main env))))
         \<and> Executed i (pid_of_task env i)
             \<in> set (events_before (Printed end_line) (trace (final (main env))))
         \<and> Collected i (processes (main env) ! i)
             \<in> set (events_before (Printed end_line) (trace (final (main env)))))
   \<and> (\<forall>e\<in>set (events_after (Printed end_line) (trace (final (main env)))).
         \<not> is_task_event e)"
  unfolding main_def
  using main_on_status_lines [of env "range_py 1000000", unfolded length_range_py] .

theorem status_lines_around_the_tasks_witness:
  "(999999::nat) < 1000000
   \<and> Submitted 999999 \<in> set (events_after (Printed start_line) (trace (final (main env4))))
   \<and> Executed 999999 1004 \<in> set (events_before (Printed end_line) (trace (final (main env4))))"
proof -
  have lt: "(999999::nat) < 1000000"
    by simp
  have pid: "pid_of_task env4 999999 = 1004"
    by (simp add: pid_of_task_def env4_def pool_size_def)
  from status_lines_around_the_tasks [of env4] lt
  have "Submitted 999999 \<in> set (events_after (Printed start_line) (trace (final (main env4))))
        \<and> Executed 999999 (pid_of_task env4 999999)
            \<in> set (events_before (Printed end_line) (trace (final (main env4))))"
    by blast
  with lt pid show ?thesis
    by auto
qed

lemma count_list_skip: "e \<notin> set xs \<Longrightarrow> count_list (xs @ ys) e = count_list ys e"
  by simp

lemma ids_line_not_end_line:
  "ids_label @ '' '' @ j \<noteq> end_line"
  by (simp add: ids_label_def end_line_def)

lemma main_on_pool_torn_down:
  "(\<forall>k<pool_size env.
       Spawned (worker_pid env k) \<in> set (trace (final (main_on env tasks)))
       \<and> Terminated (worker_pid env k)
           \<in> set (events_before (Printed end_line) (trace (final (main_on env tasks)))))
   \<and> (\<forall>p. Spawned p \<in> set (trace (final (main_on env tasks)))
         \<longrightarrow> Terminated p
               \<in> set (events_before (Printed end_line) (trace (final (main_on env tasks)))))
   \<and> (\<forall>p. Terminated p
         \<notin> set (events_after (Printed end_line) (trace (final (main_on env tasks)))))
   \<and> count_list (trace (final (main_on env tasks))) (Printed end_line) = 1"
proof (intro conjI allI impI)
  fix k assume "k < pool_size env"
  then show "Spawned (worker_pid env k) \<in> set (trace (final (main_on env tasks)))"
    by (simp add: trace_main_on worker_pids_def)
next
  fix k assume "k < pool_size env"
  then show "Terminated (worker_pid env k)
      \<in> set (events_before (Printed end_line) (trace (final (main_on env tasks))))"
    by (simp add: before_end worker_pids_def)
next
  fix p assume "Spawned p \<in> set (trace (final (main_on env tasks)))"
  then have "p \<in> set (worker_pids env)"
    by (auto simp: trace_main_on)
  then show "Terminated p
      \<in> set (events_before (Printed end_line) (trace (final (main_on env tasks))))"
    by (simp add: before_end)
next
  fix p
  show "Terminated p
      \<notin> set (events_after (Printed end_line) (trace (final (main_on env tasks))))"
    by (simp add: after_end)
next
  have "count_list (trace (final (main_on env tasks))) (Printed end_line)
        = count_list (Printed end_line
                       # [Printed (ids_label @ '' '' @ joined (main_on env tasks))])
            (Printed end_line)"
    by (subst trace_around_end) (rule count_list_skip [OF end_not_earlier])
  also have "\<dots> = 1"
    using ids_line_not_end_line [of "joined (main_on env tasks)"] by simp
  finally show "count_list (trace (final (main_on env tasks))) (Printed end_line) = 1" .
qed

text \<open>
  Claim C10. The second status line is printed only after the pool has been torn down:
  every worker the pool started is terminated before the line is printed, no
  termination follows it, and the line is printed once.
\<close>

theorem pool_torn_down_before_end_line:
  "(\<forall>k<pool_size env.
       Spawned (worker_pid env k) \<in> set (trace (final (main env)))
       \<and> Terminated (worker_pid env k)
           \<in> set (events_before (Printed end_line) (trace (final (main env)))))
   \<and> (\<forall>p. Spawned p \<in> set (trace (final (main env)))
         \<longrightarrow> Terminated p \<in> set (events_before (Printed end_line) (trace (final (main env)))))
   \<and> (\<forall>p. Terminated p \<notin> set (events_after (Printed end_line) (trace (final (main env)))))
   \<and> count_list (trace (final (main env))) (Printed end_line) = 1"
  unfolding main_def
  using main_on_pool_torn_down [of env "range_py 1000000"] .

theorem pool_torn_down_before_end_line_witness:
  "(3::nat) < pool_size env4
   \<and> Spawned 1004 \<in> set (trace (final (main env4)))
   \<and> Terminated 1004 \<in> set (events_before (Printed end_line) (trace (final (main env4))))"
proof -
  have lt: "(3::nat) < pool_size env4"
    by (simp add: pool_size_def env4_def)
  have pid: "worker_pid env4 3 = 1004"
    by (simp add: env4_def)
  from pool_torn_down_before_end_line [of env4] lt
  have "Spawned (worker_pid env4 3) \<in> set (trace (final (main env4)))
        \<and> Terminated (worker_pid env4 3)
            \<in> set (events_before (Printed end_line) (trace (final (main env4))))"
    by blast
  with lt pid show ?thesis
    by auto
qed


section \<open>Standard output\<close>

lemma newline_not_in_start_line: "newline \<notin> set start_line"
  by (simp add: start_line_def newline_def)

lemma newline_not_in_end_line: "newline \<notin> set end_line"
  by (simp add: end_line_def newline_def)

lemma newline_not_in_ids_line:
  "newline \<notin> set (ids_label @ '' '' @ joined (main_on env tasks))"
proof -
  have "newline \<notin> set (ids_label @ '' '')"
    by (simp add: ids_label_def newline_def)
  then show ?thesis
    using newline_not_in_joined [of env tasks] by simp
qed

lemma stdout_main_on_lines:
  "stdout (final (main_on env tasks)) =
     start_line @ newline # (end_line @ newline #
       ((ids_label @ '' '' @ joined (main_on env tasks)) @ newline # []))"
  by (simp add: stdout_main_on)

lemma output_lines_main_on:
  "output_lines (stdout (final (main_on env tasks))) =
     [start_line, end_line, ids_label @ '' '' @ joined (main_on env tasks)]"
proof -
  have "split_lines [] (start_line @ newline # (end_line @ newline #
          ((ids_label @ '' '' @ joined (main_on env tasks)) @ newline # [])))
        = ([] @ start_line) # split_lines [] (end_line @ newline #
          ((ids_label @ '' '' @ joined (main_on env tasks)) @ newline # []))"
    by (rule split_lines_line [OF newline_not_in_start_line])
  also have "split_lines [] (end_line @ newline #
          ((ids_label @ '' '' @ joined (main_on env tasks)) @ newline # []))
        = ([] @ end_line) # split_lines []
          ((ids_label @ '' '' @ joined (main_on env tasks)) @ newline # [])"
    by (rule split_lines_line [OF newline_not_in_end_line])
  also have "split_lines [] ((ids_label @ '' '' @ joined (main_on env tasks)) @ newline # [])
        = ([] @ (ids_label @ '' '' @ joined (main_on env tasks))) # split_lines [] []"
    by (rule split_lines_line [OF newline_not_in_ids_line])
  finally show ?thesis
    unfolding output_lines_def stdout_main_on_lines by simp
qed

lemma count_newline_main_on:
  "count_list (stdout (final (main_on env tasks))) newline = 3"
proof -
  have a: "count_list start_line newline = 0"
    by (rule count_notin [OF newline_not_in_start_line])
  have b: "count_list end_line newline = 0"
    by (rule count_notin [OF newline_not_in_end_line])
  have c: "count_list (ids_label @ '' '' @ joined (main_on env tasks)) newline = 0"
    by (rule count_notin [OF newline_not_in_ids_line])
  have "count_list (start_line @ newline # (end_line @ newline #
          ((ids_label @ '' '' @ joined (main_on env tasks)) @ newline # []))) newline
        = count_list start_line newline + (1 + (count_list end_line newline
            + (1 + (count_list (ids_label @ '' '' @ joined (main_on env tasks)) newline + 1))))"
    by (simp only: count_list_append count_list.simps if_True) simp
  then show ?thesis
    unfolding stdout_main_on_lines a b c by simp
qed

text \<open>
  Claim C4. A run writes exactly three lines to standard output, in this order: the
  literal start-of-pool line, the literal end-of-pool line, then the line that lists the
  distinct identifiers. The stream is these three lines, each ended by a line end, and
  nothing else.
\<close>

theorem stdout_three_lines:
  "stdout (final (main env)) =
     ''PYTHON: starting multiprocessing pool'' @ [newline]
     @ ''PYTHON: ended multiprocessing pool'' @ [newline]
     @ (ids_label @ '' '' @ joined (main env)) @ [newline]
   \<and> count_list (stdout (final (main env))) newline = 3
   \<and> output_lines (stdout (final (main env))) =
       [''PYTHON: starting multiprocessing pool'', ''PYTHON: ended multiprocessing pool'',
        ids_label @ '' '' @ joined (main env)]"
proof (intro conjI)
  show "stdout (final (main env)) =
     ''PYTHON: starting multiprocessing pool'' @ [newline]
     @ ''PYTHON: ended multiprocessing pool'' @ [newline]
     @ (ids_label @ '' '' @ joined (main env)) @ [newline]"
    unfolding main_def stdout_main_on start_line_def end_line_def by simp
next
  show "count_list (stdout (final (main env))) newline = 3"
    unfolding main_def by (rule count_newline_main_on)
next
  show "output_lines (stdout (final (main env))) =
       [''PYTHON: starting multiprocessing pool'', ''PYTHON: ended multiprocessing pool'',
        ids_label @ '' '' @ joined (main env)]"
    unfolding main_def output_lines_main_on start_line_def end_line_def by (rule refl)
qed

subsection \<open>The host with four workers\<close>

lemma pid_of_task_env4: "pid_of_task env4 i = 1001 + int ((i div 62500) mod 4)"
  by (simp add: pid_of_task_def env4_def pool_size_def)

lemma set_processes_env4: "set (processes (main env4)) = {1001, 1002, 1003, 1004}"
proof -
  have "pid_of_task env4 ` {0..<1000000} = {1001, 1002, 1003, 1004}"
  proof (rule set_eqI, rule iffI)
    fix p assume "p \<in> pid_of_task env4 ` {0..<1000000}"
    then obtain i where p: "p = 1001 + int ((i div 62500) mod 4)"
      by (auto simp: pid_of_task_env4)
    have "(i div 62500) mod 4 < 4"
      by simp
    then have "(i div 62500) mod 4 = 0 \<or> (i div 62500) mod 4 = 1
               \<or> (i div 62500) mod 4 = 2 \<or> (i div 62500) mod 4 = 3"
      by arith
    with p show "p \<in> {1001, 1002, 1003, 1004}"
      by auto
  next
    fix p :: int assume "p \<in> {1001, 1002, 1003, 1004}"
    then consider "p = 1001" | "p = 1002" | "p = 1003" | "p = 1004"
      by auto
    then show "p \<in> pid_of_task env4 ` {0..<1000000}"
    proof cases
      case 1
      have "pid_of_task env4 0 = 1001" by (simp add: pid_of_task_env4)
      with 1 show ?thesis by (intro image_eqI [where x = 0]) simp_all
    next
      case 2
      have "pid_of_task env4 62500 = 1002" by (simp add: pid_of_task_env4)
      with 2 show ?thesis by (intro image_eqI [where x = 62500]) simp_all
    next
      case 3
      have "pid_of_task env4 125000 = 1003" by (simp add: pid_of_task_env4)
      with 3 show ?thesis by (intro image_eqI [where x = 125000]) simp_all
    next
      case 4
      have "pid_of_task env4 187500 = 1004" by (simp add: pid_of_task_env4)
      with 4 show ?thesis by (intro image_eqI [where x = 187500]) simp_all
    qed
  qed
  then show ?thesis
    unfolding main_def set_processes_main_on length_range_py .
qed

lemma distinct_ids_env4: "distinct_ids (main env4) = [1001, 1002, 1003, 1004]"
proof -
  let ?xs = "processes (main env4)"
  have slot: "set_slot env4 = (\<lambda>p. p)"
    by (simp add: env4_def)
  have ids: "distinct_ids (main env4) = sort (remdups ?xs)"
    unfolding main_def distinct_ids_main_on set_py_def slot ..
  have "set (sort (remdups ?xs)) = set [1001, 1002, 1003, 1004 :: int]"
    using set_processes_env4 by simp
  moreover have "sorted (sort (remdups ?xs))" "distinct (sort (remdups ?xs))"
    by simp_all
  moreover have "sorted [1001, 1002, 1003, 1004 :: int]" "distinct [1001, 1002, 1003, 1004 :: int]"
    by simp_all
  ultimately have "sort (remdups ?xs) = [1001, 1002, 1003, 1004]"
    by (intro sorted_distinct_set_unique)
  with ids show ?thesis
    by simp
qed

lemma str_py_env4:
  "str_py 1001 = ''1001''" "str_py 1002 = ''1002''"
  "str_py 1003 = ''1003''" "str_py 1004 = ''1004''"
  by (simp_all add: str_py_def str_nat.simps digit_char_def)

lemma joined_env4: "joined (main env4) = ''1001, 1002, 1003, 1004''"
proof -
  have "joined (main env4) = join '', '' (map str_py (distinct_ids (main env4)))"
    unfolding main_def by (rule joined_main_on)
  then show ?thesis
    by (simp add: distinct_ids_env4 str_py_env4)
qed

lemma ids_line_env4:
  "output_lines (stdout (final (main env4))) ! 2 = ''PYTHON: process IDs:  1001, 1002, 1003, 1004''"
proof -
  have "output_lines (stdout (final (main env4))) ! 2 = ids_label @ '' '' @ joined (main env4)"
    unfolding main_def output_lines_main_on by simp
  then show ?thesis
    by (simp add: joined_env4 ids_label_def)
qed

text \<open>
  On the host \<open>env4\<close> the third line has two spaces after the colon. It is neither the
  label directly followed by the joined identifiers, nor the line with one space that
  the specification prints as the example.
\<close>

theorem ids_line_single_space_counterexample:
  "output_lines (stdout (final (main env4))) ! 2
     = ''PYTHON: process IDs:  1001, 1002, 1003, 1004''
   \<and> output_lines (stdout (final (main env4))) ! 2
     \<noteq> ''PYTHON: process IDs: '' @ join '', '' (map str_py (distinct_ids (main env4)))
   \<and> output_lines (stdout (final (main env4))) ! 2
     \<noteq> ''PYTHON: process IDs: 1001, 1002, 1003, 1004''"
  by (simp add: ids_line_env4 distinct_ids_env4 str_py_env4)

text \<open>
  Claim C3, amended. The third output line is the label \<^verbatim>\<open>PYTHON: process IDs: \<close>, which
  ends in a space, then the single space that \<^verbatim>\<open>print\<close> puts between its two
  arguments, then the textual representations of the distinct worker identifiers joined
  by \<^verbatim>\<open>, \<close>; the identifiers are pairwise distinct and are exactly the values of the
  result collection, in an order the set decides. Two spaces therefore follow the colon,
  as the host with four workers shows above.
\<close>

theorem ids_line_form:
  "output_lines (stdout (final (main env))) ! 2 =
     ''PYTHON: process IDs: '' @ '' '' @ join '', '' (map str_py (distinct_ids (main env)))
   \<and> distinct (distinct_ids (main env))
   \<and> set (distinct_ids (main env)) = set (processes (main env))"
proof (intro conjI)
  have "output_lines (stdout (final (main env))) ! 2 = ids_label @ '' '' @ joined (main env)"
    unfolding main_def output_lines_main_on by simp
  then show "output_lines (stdout (final (main env))) ! 2 =
     ''PYTHON: process IDs: '' @ '' '' @ join '', '' (map str_py (distinct_ids (main env)))"
    unfolding main_def joined_main_on ids_label_def .
next
  show "distinct (distinct_ids (main env))"
    unfolding main_def distinct_ids_main_on by (rule set_py_distinct)
next
  show "set (distinct_ids (main env)) = set (processes (main env))"
    unfolding main_def distinct_ids_main_on by (rule set_py_set)
qed

end
